theory Spec2Isabelle
  imports Complex_Main "HOL-Library.Word"
begin

unbundle bit_operations_syntax

section \<open>Arithmetic\<close>

text \<open>
  The program computes in C++ \<^verbatim>\<open>float\<close>. The embedding keeps the values in \<^typ>\<open>real\<close>,
  with no infinity and no NaN. The two functions whose results the rounding decides,
  \<^verbatim>\<open>CalculateBoundsAndDenominator\<close> and \<^verbatim>\<open>GetBarycentricCoords\<close>, take the rounding of one
  float operation as the parameter \<open>rnd\<close>: every subtraction, product and quotient of
  the source is rounded once, as single-precision operations are when nothing is fused
  and nothing is kept in a wider format. With \<open>round32\<close> below they compute in binary32;
  with the identity they compute in exact arithmetic, and the functions of the source's
  names, with no suffix, are that instance. The other functions compute in exact
  arithmetic only.

  \<^verbatim>\<open>Mathematics::EPSILON\<close> is declared outside the files at hand. It is the parameter
  \<open>eps\<close> of every function that reads it; theorems that need it positive say so.
\<close>

text \<open>
  Rounding to binary32, to nearest with ties to even. The exponent of a magnitude is the
  largest \<open>e\<close> from \<open>-125\<close> to \<open>127\<close> with \<open>2\<^sup>e\<close> not above it, and \<open>-126\<close> below
  that (the subnormal range); the result is the multiple of \<open>2\<^bsup>e-23\<^esup>\<close> nearest to
  the argument. A magnitude of \<open>2\<^bsup>128\<^esup>\<close> or more overflows in binary32 and is outside
  this model.
\<close>

definition round_even :: "real \<Rightarrow> int" where
  "round_even y =
     (let f = \<lfloor>y\<rfloor>; d = y - of_int f
      in if d < 1 / 2 then f else if 1 / 2 < d then f + 1 else if even f then f else f + 1)"

primrec exponent_scan :: "nat \<Rightarrow> real \<Rightarrow> int" where
  "exponent_scan 0 a = - 126"
| "exponent_scan (Suc n) a =
     (if 2 powi (int n - 125) \<le> a then int n - 125 else exponent_scan n a)"

definition exponent32 :: "real \<Rightarrow> int" where
  "exponent32 a = exponent_scan 253 a"

definition round32 :: "real \<Rightarrow> real" where
  "round32 x = (let u = 2 powi (exponent32 \<bar>x\<bar> - 23) in of_int (round_even (x / u)) * u)"

definition FAbs :: "real \<Rightarrow> real" where
  \<comment> \<open>Modelled from the spec: \<^verbatim>\<open>Mathematics::FAbs\<close>, the absolute-value utility of the
      math collaborator (its body is not among the sources).\<close>
  "FAbs x = (if x < 0 then - x else x)"

definition Min3 :: "real \<Rightarrow> real \<Rightarrow> real \<Rightarrow> real" where
  \<comment> \<open>Modelled from the spec: \<^verbatim>\<open>Mathematics::Min(a, b, c)\<close>, the minimum-of-three utility
      (its body is not among the sources).\<close>
  "Min3 a b c = (if a < b then (if a < c then a else c) else (if b < c then b else c))"

definition Max3 :: "real \<Rightarrow> real \<Rightarrow> real \<Rightarrow> real" where
  \<comment> \<open>Modelled from the spec: \<^verbatim>\<open>Mathematics::Max(a, b, c)\<close>, the maximum-of-three utility
      (its body is not among the sources).\<close>
  "Max3 a b c = (if a > b then (if a > c then a else c) else (if b > c then b else c))"

section \<open>Vectors, rectangles, pointers\<close>

text \<open>
  \<^verbatim>\<open>Vector2D\<close> and \<^verbatim>\<open>Vector3D\<close> are classes of public float members \<^verbatim>\<open>X\<close>, \<^verbatim>\<open>Y\<close>
  (and \<^verbatim>\<open>Z\<close>). The members of the three-dimensional vector carry the suffix 3 here,
  since a record field is a constant of the theory.
\<close>

record Vector2D =
  X :: real
  Y :: real

record Vector3D =
  X3 :: real
  Y3 :: real
  Z3 :: real

definition Vector2D_minus :: "Vector2D \<Rightarrow> Vector2D \<Rightarrow> Vector2D" where
  \<comment> \<open>Modelled from the spec: \<^verbatim>\<open>Vector2D::operator-\<close>, vector subtraction.\<close>
  "Vector2D_minus a b = \<lparr>X = X a - X b, Y = Y a - Y b\<rparr>"

definition Vector2D_minus_fp :: "(real \<Rightarrow> real) \<Rightarrow> Vector2D \<Rightarrow> Vector2D \<Rightarrow> Vector2D" where
  \<comment> \<open>Modelled from the spec: \<^verbatim>\<open>Vector2D::operator-\<close>, each of the two float subtractions
      rounded by \<open>rnd\<close>.\<close>
  "Vector2D_minus_fp rnd a b = \<lparr>X = rnd (X a - X b), Y = rnd (Y a - Y b)\<rparr>"

definition Vector3D_minus :: "Vector3D \<Rightarrow> Vector3D \<Rightarrow> Vector3D" where
  \<comment> \<open>Modelled from the spec: \<^verbatim>\<open>Vector3D::operator-\<close>, vector subtraction.\<close>
  "Vector3D_minus a b = \<lparr>X3 = X3 a - X3 b, Y3 = Y3 a - Y3 b, Z3 = Z3 a - Z3 b\<rparr>"

text \<open>
  Modelled from the spec: \<^verbatim>\<open>Rectangle2D\<close>, whose class is not among the sources. The
  source builds it from two corners, \<^verbatim>\<open>Rectangle2D(Vector2D(minX, minY), Vector2D(maxX, maxY))\<close>,
  and the spec reads them back as \<open>bounds.min\<close> and \<open>bounds.max\<close>; the fields are \<open>minV\<close>
  and \<open>maxV\<close> here.
\<close>

record Rectangle2D =
  minV :: Vector2D
  maxV :: Vector2D

definition Rectangle2D_Overlaps :: "Rectangle2D \<Rightarrow> Rectangle2D \<Rightarrow> bool" where
  \<comment> \<open>Modelled from the spec: \<^verbatim>\<open>Rectangle2D::Overlaps\<close>, the axis-aligned bounding-box
      intersection test of two rectangles: on each axis the two closed intervals meet.\<close>
  "Rectangle2D_Overlaps a b =
     (X (minV a) \<le> X (maxV b) \<and> X (minV b) \<le> X (maxV a) \<and>
      Y (minV a) \<le> Y (maxV b) \<and> Y (minV b) \<le> Y (maxV a))"

text \<open>
  A pointer is null or an address. The vertices of the source triangle live in a store
  that the projecting constructor reads; reading through a null or dangling pointer is
  undefined in C++ and is the result \<open>None\<close> here.
\<close>

datatype ptr = nullptr | Ptr nat

type_synonym 'a store = "nat \<rightharpoonup> 'a"

fun deref :: "'a store \<Rightarrow> ptr \<Rightarrow> 'a option" where
  "deref h nullptr = None"
| "deref h (Ptr a) = h a"

section \<open>The collaborators of the projecting constructor\<close>

text \<open>
  \<^verbatim>\<open>Quaternion\<close> and \<^verbatim>\<open>Transform\<close> are not among the sources. The quaternion type is the
  type parameter \<open>'q\<close>, the type of the camera's scale is \<open>'s\<close>, and the operations the
  constructor calls are the fields of a record that it takes as a parameter.
\<close>

record ('q, 's) MathKernel =
  Multiply :: "'q \<Rightarrow> 'q \<Rightarrow> 'q"
  Conjugate :: "'q \<Rightarrow> 'q"
  RotateVector :: "'q \<Rightarrow> Vector3D \<Rightarrow> Vector3D"
  Divide :: "Vector3D \<Rightarrow> 's \<Rightarrow> Vector3D"

record ('q, 's) Transform =
  position :: Vector3D
  rotation :: 'q
  scale :: 's

text \<open>
  \<^verbatim>\<open>RasterTriangle3D\<close>: pointers to its three vertices and to its texture coordinates,
  and the normal as a member. The constructor takes the member's address only
  (\<^verbatim>\<open>&sourceTriangle.normal\<close>), so the record keeps that address. Its fields carry the
  suffix 3D where the two-dimensional triangle has a member of the same name.
\<close>

record RasterTriangle3D =
  p1_3D :: ptr
  p2_3D :: ptr
  p3_3D :: ptr
  normal_3D :: nat
  uv1 :: ptr
  uv2 :: ptr
  uv3 :: ptr
  hasUV_3D :: bool

section \<open>RasterTriangle2D\<close>

record RasterTriangle2D =
  p1 :: Vector2D
  p2 :: Vector2D
  p3 :: Vector2D
  t3p1 :: ptr
  t3p2 :: ptr
  t3p3 :: ptr
  normal :: ptr
  material :: ptr
  p1UV :: ptr
  p2UV :: ptr
  p3UV :: ptr
  hasUV :: bool
  averageDepth :: real
  denominator :: real
  bounds :: Rectangle2D
  v0 :: Vector2D
  v1 :: Vector2D

text \<open>
  \<^verbatim>\<open>CalculateBoundsAndDenominator\<close>, lines 45 to 66, with the rounding \<open>rnd\<close> of each
  float operation: the four subtractions of the edge vectors, the two products and the
  difference of line 51, and the quotient of line 54. The comparisons and the selection
  of the minima and maxima do not round.
\<close>

definition CalculateBoundsAndDenominator_fp ::
  "(real \<Rightarrow> real) \<Rightarrow> real \<Rightarrow> RasterTriangle2D \<Rightarrow> RasterTriangle2D" where
  "CalculateBoundsAndDenominator_fp rnd eps t =
     (let e0 = Vector2D_minus_fp rnd (p2 t) (p1 t);
          e1 = Vector2D_minus_fp rnd (p3 t) (p1 t);
          d = rnd (rnd (X e0 * Y e1) - rnd (X e1 * Y e0));
          d' = (if FAbs d > eps then rnd (1 / d) else 0);
          minX = Min3 (X (p1 t)) (X (p2 t)) (X (p3 t));
          minY = Min3 (Y (p1 t)) (Y (p2 t)) (Y (p3 t));
          maxX = Max3 (X (p1 t)) (X (p2 t)) (X (p3 t));
          maxY = Max3 (Y (p1 t)) (Y (p2 t)) (Y (p3 t))
      in t\<lparr>v0 := e0, v1 := e1, denominator := d',
            bounds := \<lparr>minV = \<lparr>X = minX, Y = minY\<rparr>, maxV = \<lparr>X = maxX, Y = maxY\<rparr>\<rparr>\<rparr>)"

text \<open>The same function in exact arithmetic: no operation rounds.\<close>

definition CalculateBoundsAndDenominator :: "real \<Rightarrow> RasterTriangle2D \<Rightarrow> RasterTriangle2D" where
  "CalculateBoundsAndDenominator eps t = CalculateBoundsAndDenominator_fp (\<lambda>x. x) eps t"

text \<open>
  The default constructor. \<open>init\<close> is the object as the default constructors of its
  members leave it (\<^verbatim>\<open>Triangle2D()\<close> for the three vertices, \<^verbatim>\<open>Vector2D()\<close> for \<open>v0\<close>
  and \<open>v1\<close>: neither class is among the sources); the member initialisers follow.
\<close>

definition RasterTriangle2D_default :: "RasterTriangle2D \<Rightarrow> RasterTriangle2D" where
  "RasterTriangle2D_default init =
     init\<lparr>t3p1 := nullptr, t3p2 := nullptr, t3p3 := nullptr, normal := nullptr,
          material := nullptr, p1UV := nullptr, p2UV := nullptr, p3UV := nullptr,
          hasUV := False, averageDepth := 0, denominator := 0,
          bounds := \<lparr>minV = \<lparr>X = 0, Y = 0\<rparr>, maxV = \<lparr>X = 1, Y = 1\<rparr>\<rparr>\<rparr>"

text \<open>
  The projecting constructor. \<open>k\<close> holds the quaternion and vector operations, \<open>h\<close>
  is the store of three-dimensional vertices, \<open>init\<close> the object before the
  constructor's body runs. The texture pointers are assigned only when the source
  triangle has texture coordinates.
\<close>

definition RasterTriangle2D_project ::
  "('q, 's) MathKernel \<Rightarrow> real \<Rightarrow> Vector3D store \<Rightarrow> RasterTriangle2D \<Rightarrow>
   ('q, 's) Transform \<Rightarrow> 'q \<Rightarrow> RasterTriangle3D \<Rightarrow> ptr \<Rightarrow> RasterTriangle2D option" where
  "RasterTriangle2D_project k eps h init camTransform lookDirection sourceTriangle mat =
     (let t0 = init\<lparr>bounds := \<lparr>minV = \<lparr>X = 0, Y = 0\<rparr>, maxV = \<lparr>X = 1, Y = 1\<rparr>\<rparr>\<rparr>;
          t1 = t0\<lparr>material := mat, t3p1 := p1_3D sourceTriangle, t3p2 := p2_3D sourceTriangle,
                  t3p3 := p3_3D sourceTriangle, normal := Ptr (normal_3D sourceTriangle)\<rparr>;
          t2 = t1\<lparr>hasUV := hasUV_3D sourceTriangle\<rparr>;
          t3 = (if hasUV t2
                then t2\<lparr>p1UV := uv1 sourceTriangle, p2UV := uv2 sourceTriangle,
                        p3UV := uv3 sourceTriangle\<rparr>
                else t2);
          inverseCamRotation = Conjugate k (Multiply k (rotation camTransform) lookDirection)
      in case deref h (t3p1 t3) of None \<Rightarrow> None | Some a \<Rightarrow>
         (case deref h (t3p2 t3) of None \<Rightarrow> None | Some b \<Rightarrow>
         (case deref h (t3p3 t3) of None \<Rightarrow> None | Some c \<Rightarrow>
           (let projectedP1 = Divide k (RotateVector k inverseCamRotation
                                (Vector3D_minus a (position camTransform))) (scale camTransform);
                projectedP2 = Divide k (RotateVector k inverseCamRotation
                                (Vector3D_minus b (position camTransform))) (scale camTransform);
                projectedP3 = Divide k (RotateVector k inverseCamRotation
                                (Vector3D_minus c (position camTransform))) (scale camTransform);
                t4 = t3\<lparr>p1 := \<lparr>X = X3 projectedP1, Y = Y3 projectedP1\<rparr>,
                        p2 := \<lparr>X = X3 projectedP2, Y = Y3 projectedP2\<rparr>,
                        p3 := \<lparr>X = X3 projectedP3, Y = Y3 projectedP3\<rparr>\<rparr>;
                t5 = t4\<lparr>averageDepth := (Z3 projectedP1 + Z3 projectedP2 + Z3 projectedP3) / 3\<rparr>
            in Some (CalculateBoundsAndDenominator eps t5)))))"

text \<open>
  \<^verbatim>\<open>GetBarycentricCoords\<close> returns a flag and writes through three references. The
  references are the triple the function takes and returns: on the early return they
  come back as they went in. The three references are taken to be three distinct
  objects, none of them a member of the triangle.
\<close>

definition GetBarycentricCoords_fp ::
  "(real \<Rightarrow> real) \<Rightarrow> real \<Rightarrow> RasterTriangle2D \<Rightarrow> real \<Rightarrow> real \<Rightarrow> real \<times> real \<times> real \<Rightarrow>
   bool \<times> real \<times> real \<times> real" where
  "GetBarycentricCoords_fp rnd eps t x y uvw =
     (if FAbs (denominator t) < eps then (False, uvw)
      else
        (let q = Vector2D_minus_fp rnd \<lparr>X = x, Y = y\<rparr> (p1 t);
             v = rnd (rnd (rnd (X q * Y (v1 t)) - rnd (X (v1 t) * Y q)) * denominator t);
             w = rnd (rnd (rnd (X (v0 t) * Y q) - rnd (X q * Y (v0 t))) * denominator t);
             u = rnd (rnd (1 - v) - w)
         in (v \<ge> 0 \<and> w \<ge> 0 \<and> u \<ge> 0, u, v, w)))"

text \<open>The same function in exact arithmetic: no operation rounds.\<close>

definition GetBarycentricCoords ::
  "real \<Rightarrow> RasterTriangle2D \<Rightarrow> real \<Rightarrow> real \<Rightarrow> real \<times> real \<times> real \<Rightarrow> bool \<times> real \<times> real \<times> real" where
  "GetBarycentricCoords eps t x y uvw = GetBarycentricCoords_fp (\<lambda>x. x) eps t x y uvw"

definition Overlaps :: "RasterTriangle2D \<Rightarrow> Rectangle2D \<Rightarrow> bool" where
  "Overlaps t otherBounds = Rectangle2D_Overlaps (bounds t) otherBounds"

section \<open>Notions of the specification\<close>

text \<open>
  The value line 51 of the source computes, before the guard replaces it by its
  reciprocal or by the mark 0: the triangle is flagged degenerate at construction
  exactly when its absolute value is not above \<open>eps\<close>.
\<close>

definition raw_denominator :: "RasterTriangle2D \<Rightarrow> real" where
  "raw_denominator t =
     (X (p2 t) - X (p1 t)) * (Y (p3 t) - Y (p1 t)) - (X (p3 t) - X (p1 t)) * (Y (p2 t) - Y (p1 t))"



text \<open>
  The spec's barycentric kernel past its guard (section 4.2): \<open>q = (x, y) - p1\<close>, then
  \<open>v\<close>, \<open>w\<close> and \<open>u\<close> from the edge vectors and the stored inverse denominator, and
  \<open>inside\<close> as the three coordinates being non-negative.
\<close>

definition spec_Barycentric :: "RasterTriangle2D \<Rightarrow> real \<Rightarrow> real \<Rightarrow> bool \<times> real \<times> real \<times> real" where
  "spec_Barycentric t x y =
     (let qx = x - X (p1 t);
          qy = y - Y (p1 t);
          v = (qx * Y (v1 t) - X (v1 t) * qy) * denominator t;
          w = (X (v0 t) * qy - qx * Y (v0 t)) * denominator t;
          u = 1 - v - w
      in (u \<ge> 0 \<and> v \<ge> 0 \<and> w \<ge> 0, u, v, w))"

text \<open>The spec's screen point of one source vertex (section 4.1, step 2).\<close>

definition screenPoint ::
  "('q, 's) MathKernel \<Rightarrow> ('q, 's) Transform \<Rightarrow> 'q \<Rightarrow> Vector3D \<Rightarrow> Vector3D" where
  "screenPoint k cameraTransform lookRotation vertex =
     Divide k
       (RotateVector k (Conjugate k (Multiply k (rotation cameraTransform) lookRotation))
          (Vector3D_minus vertex (position cameraTransform)))
       (scale cameraTransform)"

text \<open>The spec's bounds tightness: the corners are the componentwise extrema of the vertices.\<close>

definition bounds_tight :: "RasterTriangle2D \<Rightarrow> bool" where
  "bounds_tight t =
     (bounds t =
        \<lparr>minV = \<lparr>X = Min {X (p1 t), X (p2 t), X (p3 t)}, Y = Min {Y (p1 t), Y (p2 t), Y (p3 t)}\<rparr>,
         maxV = \<lparr>X = Max {X (p1 t), X (p2 t), X (p3 t)}, Y = Max {Y (p1 t), Y (p2 t), Y (p3 t)}\<rparr>\<rparr>)"

text \<open>
  A rectangle strictly contains another when both corners of the inner one lie strictly
  between the corners of the outer one, on both axes.
\<close>

definition strictly_inside :: "Rectangle2D \<Rightarrow> Vector2D \<Rightarrow> bool" where
  "strictly_inside outer p =
     (X (minV outer) < X p \<and> X p < X (maxV outer) \<and> Y (minV outer) < Y p \<and> Y p < Y (maxV outer))"

definition strictly_contains :: "Rectangle2D \<Rightarrow> Rectangle2D \<Rightarrow> bool" where
  "strictly_contains outer inner =
     (strictly_inside outer (minV inner) \<and> strictly_inside outer (maxV inner))"

text \<open>The closed set of points of a rectangle.\<close>

definition points_of :: "Rectangle2D \<Rightarrow> Vector2D set" where
  "points_of a = {p. X (minV a) \<le> X p \<and> X p \<le> X (maxV a) \<and> Y (minV a) \<le> Y p \<and> Y p \<le> Y (maxV a)}"

section \<open>Examples\<close>

text \<open>
  An object whose members are all zero or null, and a triangle with three given
  vertices: default-constructed, its vertices assigned, then recalculated.
\<close>

definition blank :: RasterTriangle2D where
  "blank =
     \<lparr>p1 = \<lparr>X = 0, Y = 0\<rparr>, p2 = \<lparr>X = 0, Y = 0\<rparr>, p3 = \<lparr>X = 0, Y = 0\<rparr>,
      t3p1 = nullptr, t3p2 = nullptr, t3p3 = nullptr, normal = nullptr, material = nullptr,
      p1UV = nullptr, p2UV = nullptr, p3UV = nullptr, hasUV = False,
      averageDepth = 0, denominator = 0,
      bounds = \<lparr>minV = \<lparr>X = 0, Y = 0\<rparr>, maxV = \<lparr>X = 0, Y = 0\<rparr>\<rparr>,
      v0 = \<lparr>X = 0, Y = 0\<rparr>, v1 = \<lparr>X = 0, Y = 0\<rparr>\<rparr>"

definition triangle_at :: "real \<Rightarrow> Vector2D \<Rightarrow> Vector2D \<Rightarrow> Vector2D \<Rightarrow> RasterTriangle2D" where
  "triangle_at eps a b c =
     CalculateBoundsAndDenominator eps ((RasterTriangle2D_default blank)\<lparr>p1 := a, p2 := b, p3 := c\<rparr>)"

text \<open>
  A math kernel to run the projecting constructor on examples: quaternions as
  quadruples \<open>(w, x, y, z)\<close> with the Hamilton product, the conjugate and the rotation
  \<open>q v q\<^sup>*\<close>, and a scale per axis. Modelled from the spec: the operations of the
  math collaborator (section 6), whose code is not among the sources. No theorem about
  the constructor rests on these bodies; only examples do.
\<close>

type_synonym quat = "real \<times> real \<times> real \<times> real"

fun quat_Multiply :: "quat \<Rightarrow> quat \<Rightarrow> quat" where
  "quat_Multiply (w1, x1, y1, z1) (w2, x2, y2, z2) =
     (w1 * w2 - x1 * x2 - y1 * y2 - z1 * z2,
      w1 * x2 + x1 * w2 + y1 * z2 - z1 * y2,
      w1 * y2 - x1 * z2 + y1 * w2 + z1 * x2,
      w1 * z2 + x1 * y2 - y1 * x2 + z1 * w2)"

fun quat_Conjugate :: "quat \<Rightarrow> quat" where
  "quat_Conjugate (w, x, y, z) = (w, - x, - y, - z)"

definition quat_RotateVector :: "quat \<Rightarrow> Vector3D \<Rightarrow> Vector3D" where
  "quat_RotateVector q v =
     (case quat_Multiply (quat_Multiply q (0, X3 v, Y3 v, Z3 v)) (quat_Conjugate q) of
        (w, x, y, z) \<Rightarrow> \<lparr>X3 = x, Y3 = y, Z3 = z\<rparr>)"

definition Vector3D_divide :: "Vector3D \<Rightarrow> Vector3D \<Rightarrow> Vector3D" where
  "Vector3D_divide a s = \<lparr>X3 = X3 a / X3 s, Y3 = Y3 a / Y3 s, Z3 = Z3 a / Z3 s\<rparr>"

definition quat_kernel :: "(quat, Vector3D) MathKernel" where
  "quat_kernel =
     \<lparr>Multiply = quat_Multiply, Conjugate = quat_Conjugate,
      RotateVector = quat_RotateVector, Divide = Vector3D_divide\<rparr>"

text \<open>
  The camera of the spec's projection example: at the origin, identity rotation,
  scale 1. Its source triangle has the vertices \<open>(0,0,5)\<close>, \<open>(1,0,5)\<close>, \<open>(0,1,5)\<close>, stored
  at the addresses 0, 1 and 2.
\<close>

definition identity_camera :: "(quat, Vector3D) Transform" where
  "identity_camera =
     \<lparr>position = \<lparr>X3 = 0, Y3 = 0, Z3 = 0\<rparr>, rotation = (1, 0, 0, 0),
      scale = \<lparr>X3 = 1, Y3 = 1, Z3 = 1\<rparr>\<rparr>"

definition example_store :: "Vector3D store" where
  "example_store =
     [0 \<mapsto> \<lparr>X3 = 0, Y3 = 0, Z3 = 5\<rparr>, 1 \<mapsto> \<lparr>X3 = 1, Y3 = 0, Z3 = 5\<rparr>,
      2 \<mapsto> \<lparr>X3 = 0, Y3 = 1, Z3 = 5\<rparr>]"

definition example_source :: RasterTriangle3D where
  "example_source =
     \<lparr>p1_3D = Ptr 0, p2_3D = Ptr 1, p3_3D = Ptr 2, normal_3D = 3,
      uv1 = nullptr, uv2 = nullptr, uv3 = nullptr, hasUV_3D = False\<rparr>"

text \<open>
  The same camera with scale \<open>1/100\<close> on every axis: the example triangle is projected
  to the screen points \<open>(0,0)\<close>, \<open>(100,0)\<close>, \<open>(0,100)\<close>.
\<close>

definition zoom_camera :: "(quat, Vector3D) Transform" where
  "zoom_camera = identity_camera\<lparr>scale := \<lparr>X3 = 1 / 100, Y3 = 1 / 100, Z3 = 1 / 100\<rparr>\<rparr>"

section \<open>RGBColor\<close>

text \<open>
  The packed value is a \<^verbatim>\<open>uint16_t\<close>, the channels are \<^verbatim>\<open>uint8_t\<close>. In \<^verbatim>\<open>Pack\<close> each
  channel is promoted to \<^verbatim>\<open>int\<close> (32 bits here) before the shift to the right, cast to
  sixteen bits, promoted again before the shift to the left, and the disjunction is
  cut to sixteen bits when it is stored.
\<close>

record RGBColor =
  color :: "16 word"
  r :: "8 word"
  g :: "8 word"
  b :: "8 word"

definition RGBColor_default :: RGBColor where
  "RGBColor_default = \<lparr>color = 0, r = 0, g = 0, b = 0\<rparr>"

definition Pack :: "RGBColor \<Rightarrow> RGBColor" where
  "Pack c = c\<lparr>color := ucast
     (push_bit 11 (ucast (ucast (drop_bit 3 (ucast (r c) :: 32 word)) :: 16 word) :: 32 word) OR
      push_bit 5 (ucast (ucast (drop_bit 2 (ucast (g c) :: 32 word)) :: 16 word) :: 32 word) OR
      (ucast (ucast (drop_bit 3 (ucast (b c) :: 32 word)) :: 16 word) :: 32 word))\<rparr>"

definition SetColor :: "RGBColor \<Rightarrow> 8 word \<Rightarrow> 8 word \<Rightarrow> 8 word \<Rightarrow> RGBColor" where
  "SetColor c rIn gIn bIn = Pack (c\<lparr>r := rIn, g := gIn, b := bIn\<rparr>)"

definition RGBColor_of :: "8 word \<Rightarrow> 8 word \<Rightarrow> 8 word \<Rightarrow> RGBColor" where
  \<comment> \<open>The constructor \<^verbatim>\<open>RGBColor(uint8_t r, uint8_t g, uint8_t b)\<close>: the default member
      initialisers, then \<^verbatim>\<open>SetColor\<close>.\<close>
  "RGBColor_of rIn gIn bIn = SetColor RGBColor_default rIn gIn bIn"

section \<open>Basic facts\<close>

lemma FAbs_abs: "FAbs x = \<bar>x\<bar>"
  by (simp add: FAbs_def)

text \<open>The two functions in exact arithmetic, written out.\<close>

lemma CalculateBoundsAndDenominator_exact:
  "CalculateBoundsAndDenominator eps t =
     (let e0 = Vector2D_minus (p2 t) (p1 t);
          e1 = Vector2D_minus (p3 t) (p1 t);
          d = X e0 * Y e1 - X e1 * Y e0;
          d' = (if FAbs d > eps then 1 / d else 0);
          minX = Min3 (X (p1 t)) (X (p2 t)) (X (p3 t));
          minY = Min3 (Y (p1 t)) (Y (p2 t)) (Y (p3 t));
          maxX = Max3 (X (p1 t)) (X (p2 t)) (X (p3 t));
          maxY = Max3 (Y (p1 t)) (Y (p2 t)) (Y (p3 t))
      in t\<lparr>v0 := e0, v1 := e1, denominator := d',
            bounds := \<lparr>minV = \<lparr>X = minX, Y = minY\<rparr>, maxV = \<lparr>X = maxX, Y = maxY\<rparr>\<rparr>\<rparr>)"
  by (simp add: CalculateBoundsAndDenominator_def CalculateBoundsAndDenominator_fp_def
      Vector2D_minus_fp_def Vector2D_minus_def)

lemma GetBarycentricCoords_exact:
  "GetBarycentricCoords eps t x y uvw =
     (if FAbs (denominator t) < eps then (False, uvw)
      else
        (let q = Vector2D_minus \<lparr>X = x, Y = y\<rparr> (p1 t);
             v = (X q * Y (v1 t) - X (v1 t) * Y q) * denominator t;
             w = (X (v0 t) * Y q - X q * Y (v0 t)) * denominator t;
             u = 1 - v - w
         in (v \<ge> 0 \<and> w \<ge> 0 \<and> u \<ge> 0, u, v, w)))"
  by (simp add: GetBarycentricCoords_def GetBarycentricCoords_fp_def
      Vector2D_minus_fp_def Vector2D_minus_def)

subsection \<open>Rounding to binary32\<close>

lemma exponent_scan_eq:
  assumes "2 powi e \<le> a" "a < 2 powi (e + 1)" "- 125 \<le> e" "e + 125 < int n"
  shows "exponent_scan n a = e"
  using assms
proof (induction n)
  case 0
  then show ?case by simp
next
  case (Suc n)
  show ?case
  proof (cases "2 powi (int n - 125) \<le> a")
    case True
    with Suc.prems(2) have "(2::real) powi (int n - 125) < 2 powi (e + 1)" by linarith
    then have "int n - 125 < e + 1"
      by (metis linorder_not_less one_le_numeral power_int_increasing)
    with Suc.prems(4) have "int n - 125 = e" by simp
    with True show ?thesis by simp
  next
    case False
    with Suc.prems(1) have "(2::real) powi e < 2 powi (int n - 125)" by linarith
    then have "e < int n - 125"
      by (metis linorder_not_less one_le_numeral power_int_increasing)
    then have "e + 125 < int n" by simp
    from Suc.IH [OF Suc.prems(1) Suc.prems(2) Suc.prems(3) this] False
    show ?thesis by simp
  qed
qed

lemma round32_normal:
  assumes "2 powi e \<le> \<bar>x\<bar>" "\<bar>x\<bar> < 2 powi (e + 1)" "- 125 \<le> e" "e \<le> 127"
  shows "round32 x = of_int (round_even (x / 2 powi (e - 23))) * 2 powi (e - 23)"
proof -
  from assms have "exponent32 \<bar>x\<bar> = e"
    unfolding exponent32_def by (intro exponent_scan_eq) simp_all
  then show ?thesis by (simp add: round32_def Let_def)
qed

lemma round32_0: "round32 0 = 0"
  by (simp add: round32_def round_even_def)

text \<open>The values the examples round.\<close>

lemma round32_values:
  "round32 1 = 1" "round32 2 = 2" "round32 3 = 3" "round32 100 = 100"
  "round32 10000 = 10000" "round32 (- 4) = - 4" "round32 (- (1 / 4)) = - (1 / 4)"
  "round32 (- 16777215) = - 16777215" "round32 33554436 = 33554436"
  "round32 16777217 = 16777216" "round32 50331651 = 50331652"
  "round32 50331648 = 50331648" "round32 50331652 = 50331652"
  "round32 (1 / 10000) = 13743895 / 137438953472"
  using round32_normal [of 0 1] round32_normal [of 1 2] round32_normal [of 1 3]
    round32_normal [of 6 100] round32_normal [of 13 10000] round32_normal [of 2 "- 4"]
    round32_normal [of "- 2" "- (1 / 4)"] round32_normal [of 23 "- 16777215"]
    round32_normal [of 25 33554436] round32_normal [of 24 16777217]
    round32_normal [of 25 50331651] round32_normal [of 25 50331648]
    round32_normal [of 25 50331652] round32_normal [of "- 14" "1 / 10000"]
  by (simp_all add: round_even_def)

lemma Min3_Min: "Min3 x y z = Min {x, y, z}"
  by (simp add: Min3_def min_def)

lemma Max3_Max: "Max3 x y z = Max {x, y, z}"
  by (simp add: Max3_def max_def)

lemma Rectangle2D_Overlaps_points:
  assumes "X (minV a) \<le> X (maxV a)" "Y (minV a) \<le> Y (maxV a)"
    and "X (minV c) \<le> X (maxV c)" "Y (minV c) \<le> Y (maxV c)"
  shows "Rectangle2D_Overlaps a c \<longleftrightarrow> points_of a \<inter> points_of c \<noteq> {}"
proof
  assume ov: "Rectangle2D_Overlaps a c"
  let ?p = "\<lparr>X = max (X (minV a)) (X (minV c)), Y = max (Y (minV a)) (Y (minV c))\<rparr>"
  from ov assms have "?p \<in> points_of a" "?p \<in> points_of c"
    by (simp_all add: Rectangle2D_Overlaps_def points_of_def)
  then show "points_of a \<inter> points_of c \<noteq> {}" by blast
next
  assume "points_of a \<inter> points_of c \<noteq> {}"
  then obtain p where "p \<in> points_of a" "p \<in> points_of c" by blast
  then show "Rectangle2D_Overlaps a c"
    by (simp add: Rectangle2D_Overlaps_def points_of_def)
qed

subsection \<open>What a recalculation stores\<close>

lemma Calculate_vertices:
  "p1 (CalculateBoundsAndDenominator eps t) = p1 t"
  "p2 (CalculateBoundsAndDenominator eps t) = p2 t"
  "p3 (CalculateBoundsAndDenominator eps t) = p3 t"
  by (simp_all add: CalculateBoundsAndDenominator_exact Let_def)

lemma Calculate_frame:
  "averageDepth (CalculateBoundsAndDenominator eps t) = averageDepth t"
  "hasUV (CalculateBoundsAndDenominator eps t) = hasUV t"
  by (simp_all add: CalculateBoundsAndDenominator_exact Let_def)

lemma Calculate_edges:
  "v0 (CalculateBoundsAndDenominator eps t) = Vector2D_minus (p2 t) (p1 t)"
  "v1 (CalculateBoundsAndDenominator eps t) = Vector2D_minus (p3 t) (p1 t)"
  by (simp_all add: CalculateBoundsAndDenominator_exact Let_def)

lemma Calculate_denominator:
  "denominator (CalculateBoundsAndDenominator eps t) =
     (if \<bar>raw_denominator t\<bar> > eps then 1 / raw_denominator t else 0)"
  by (simp add: CalculateBoundsAndDenominator_exact Let_def Vector2D_minus_def FAbs_abs
      raw_denominator_def)

lemma Calculate_bounds:
  "bounds (CalculateBoundsAndDenominator eps t) =
     \<lparr>minV = \<lparr>X = Min {X (p1 t), X (p2 t), X (p3 t)}, Y = Min {Y (p1 t), Y (p2 t), Y (p3 t)}\<rparr>,
      maxV = \<lparr>X = Max {X (p1 t), X (p2 t), X (p3 t)}, Y = Max {Y (p1 t), Y (p2 t), Y (p3 t)}\<rparr>\<rparr>"
  by (simp add: CalculateBoundsAndDenominator_exact Let_def Min3_Min Max3_Max)

lemma Calculate_bounds_image:
  "bounds (CalculateBoundsAndDenominator eps t) =
     \<lparr>minV = \<lparr>X = Min (X ` {p1 t, p2 t, p3 t}), Y = Min (Y ` {p1 t, p2 t, p3 t})\<rparr>,
      maxV = \<lparr>X = Max (X ` {p1 t, p2 t, p3 t}), Y = Max (Y ` {p1 t, p2 t, p3 t})\<rparr>\<rparr>"
  by (simp add: Calculate_bounds)

lemma Calculate_tight: "bounds_tight (CalculateBoundsAndDenominator eps t)"
  by (simp add: bounds_tight_def Calculate_bounds Calculate_vertices)

lemma raw_denominator_Calculate:
  "raw_denominator (CalculateBoundsAndDenominator eps t) = raw_denominator t"
  by (simp add: raw_denominator_def Calculate_vertices)

text \<open>Recalculating twice is recalculating once (the spec's idempotence).\<close>

lemma Calculate_idempotent:
  "CalculateBoundsAndDenominator eps (CalculateBoundsAndDenominator eps t) =
   CalculateBoundsAndDenominator eps t"
  by (simp add: CalculateBoundsAndDenominator_exact Let_def)

subsection \<open>The two paths of GetBarycentricCoords\<close>

lemma GetBarycentricCoords_early:
  "\<bar>denominator t\<bar> < eps \<Longrightarrow> GetBarycentricCoords eps t x y uvw = (False, uvw)"
  by (simp add: GetBarycentricCoords_exact FAbs_abs)

lemma GetBarycentricCoords_computed:
  "\<not> \<bar>denominator t\<bar> < eps \<Longrightarrow> GetBarycentricCoords eps t x y uvw = spec_Barycentric t x y"
  by (auto simp add: GetBarycentricCoords_exact spec_Barycentric_def FAbs_abs Let_def
      Vector2D_minus_def)

lemma spec_Barycentric_sum:
  "spec_Barycentric t x y = (inside, u, v, w) \<Longrightarrow> u + v + w = 1"
  by (auto simp add: spec_Barycentric_def Let_def)

lemma GetBarycentricCoords_sum:
  "\<not> \<bar>denominator t\<bar> < eps \<Longrightarrow> GetBarycentricCoords eps t x y uvw = (inside, u, v, w) \<Longrightarrow>
   u + v + w = 1"
  by (simp add: GetBarycentricCoords_computed spec_Barycentric_sum)

text \<open>
  The guard of \<^verbatim>\<open>GetBarycentricCoords\<close> compares the stored value with \<open>eps\<close>. After a
  recalculation the stored value is the reciprocal of the raw denominator, so the guard
  fires on the triangles flagged degenerate and also on every triangle whose raw
  denominator is above \<open>1 / eps\<close>.
\<close>

lemma guard_iff:
  assumes "0 < eps"
  shows "\<bar>denominator (CalculateBoundsAndDenominator eps t)\<bar> < eps \<longleftrightarrow>
         \<bar>raw_denominator t\<bar> \<le> eps \<or> 1 / eps < \<bar>raw_denominator t\<bar>"
proof (cases "\<bar>raw_denominator t\<bar> > eps")
  case True
  then have pos: "0 < \<bar>raw_denominator t\<bar>" using assms by linarith
  have "\<bar>1 / raw_denominator t\<bar> < eps \<longleftrightarrow> 1 / eps < \<bar>raw_denominator t\<bar>"
    using pos assms by (simp add: abs_divide field_simps)
  with True show ?thesis by (simp add: Calculate_denominator)
next
  case False
  with assms show ?thesis by (simp add: Calculate_denominator)
qed

lemma guard_misfires:
  assumes "0 < eps" "eps < \<bar>raw_denominator t\<bar>" "1 / eps < \<bar>raw_denominator t\<bar>"
  shows "denominator (CalculateBoundsAndDenominator eps t) \<noteq> 0"
    and "GetBarycentricCoords eps (CalculateBoundsAndDenominator eps t) x y uvw = (False, uvw)"
proof -
  from assms show "denominator (CalculateBoundsAndDenominator eps t) \<noteq> 0"
    by (auto simp add: Calculate_denominator)
  from assms have "\<bar>denominator (CalculateBoundsAndDenominator eps t)\<bar> < eps"
    by (simp add: guard_iff)
  then show "GetBarycentricCoords eps (CalculateBoundsAndDenominator eps t) x y uvw = (False, uvw)"
    by (rule GetBarycentricCoords_early)
qed

text \<open>Every positive \<open>eps\<close> has such a triangle: \<open>(0,0)\<close>, \<open>(1,0)\<close>, \<open>(0, eps + 1/eps)\<close>.\<close>

lemma guard_misfires_for_every_eps:
  assumes "0 < eps"
  shows "denominator (triangle_at eps \<lparr>X = 0, Y = 0\<rparr> \<lparr>X = 1, Y = 0\<rparr> \<lparr>X = 0, Y = eps + 1 / eps\<rparr>) \<noteq> 0"
    and "GetBarycentricCoords eps
           (triangle_at eps \<lparr>X = 0, Y = 0\<rparr> \<lparr>X = 1, Y = 0\<rparr> \<lparr>X = 0, Y = eps + 1 / eps\<rparr>) x y uvw
         = (False, uvw)"
proof -
  let ?t = "(RasterTriangle2D_default blank)
              \<lparr>p1 := \<lparr>X = 0, Y = 0\<rparr>, p2 := \<lparr>X = 1, Y = 0\<rparr>, p3 := \<lparr>X = 0, Y = eps + 1 / eps\<rparr>\<rparr>"
  have r: "raw_denominator ?t = eps + 1 / eps"
    by (simp add: raw_denominator_def)
  from assms have "0 < 1 / eps" by simp
  with assms have a: "eps < \<bar>raw_denominator ?t\<bar>" and b': "1 / eps < \<bar>raw_denominator ?t\<bar>"
    unfolding r by linarith+
  show "denominator (triangle_at eps \<lparr>X = 0, Y = 0\<rparr> \<lparr>X = 1, Y = 0\<rparr> \<lparr>X = 0, Y = eps + 1 / eps\<rparr>) \<noteq> 0"
    unfolding triangle_at_def by (rule guard_misfires(1) [OF assms a b'])
  show "GetBarycentricCoords eps
           (triangle_at eps \<lparr>X = 0, Y = 0\<rparr> \<lparr>X = 1, Y = 0\<rparr> \<lparr>X = 0, Y = eps + 1 / eps\<rparr>) x y uvw
         = (False, uvw)"
    unfolding triangle_at_def by (rule guard_misfires(2) [OF assms a b'])
qed

text \<open>
  Where the guard does not fire on a triangle that is not flagged, the vertices have
  the coordinates \<open>(1,0,0)\<close>, \<open>(0,1,0)\<close>, \<open>(0,0,1)\<close>.
\<close>

lemma vertex_exactness:
  assumes "0 < eps" "eps < \<bar>raw_denominator t\<bar>" "\<bar>raw_denominator t\<bar> \<le> 1 / eps"
  shows "GetBarycentricCoords eps (CalculateBoundsAndDenominator eps t) (X (p1 t)) (Y (p1 t)) uvw
           = (True, 1, 0, 0)"
    and "GetBarycentricCoords eps (CalculateBoundsAndDenominator eps t) (X (p2 t)) (Y (p2 t)) uvw
           = (True, 0, 1, 0)"
    and "GetBarycentricCoords eps (CalculateBoundsAndDenominator eps t) (X (p3 t)) (Y (p3 t)) uvw
           = (True, 0, 0, 1)"
proof -
  let ?t = "CalculateBoundsAndDenominator eps t"
  from assms have guard: "\<not> \<bar>denominator ?t\<bar> < eps"
    by (simp add: guard_iff)
  from assms have nz: "raw_denominator t \<noteq> 0" by auto
  from assms have d: "denominator ?t = 1 / raw_denominator t"
    by (simp add: Calculate_denominator)
  have raw: "(X (p2 t) - X (p1 t)) * (Y (p3 t) - Y (p1 t)) -
             (X (p3 t) - X (p1 t)) * (Y (p2 t) - Y (p1 t)) = raw_denominator t"
    by (simp add: raw_denominator_def)
  show "GetBarycentricCoords eps ?t (X (p1 t)) (Y (p1 t)) uvw = (True, 1, 0, 0)"
    by (simp add: GetBarycentricCoords_computed [OF guard] spec_Barycentric_def Calculate_vertices)
  show "GetBarycentricCoords eps ?t (X (p2 t)) (Y (p2 t)) uvw = (True, 0, 1, 0)"
    using nz
    by (simp add: GetBarycentricCoords_computed [OF guard] spec_Barycentric_def Calculate_vertices
        Calculate_edges Vector2D_minus_def d raw Let_def)
  show "GetBarycentricCoords eps ?t (X (p3 t)) (Y (p3 t)) uvw = (True, 0, 0, 1)"
    using nz
    by (simp add: GetBarycentricCoords_computed [OF guard] spec_Barycentric_def Calculate_vertices
        Calculate_edges Vector2D_minus_def d raw Let_def)
qed

subsection \<open>Under a rounding\<close>



text \<open>
  The guard misfires in binary32 as it does in exact arithmetic: the triangle \<open>(0,0)\<close>,
  \<open>(100,0)\<close>, \<open>(0,100)\<close> is stored with the binary32 value nearest to \<open>1/10000\<close>, and the
  point \<open>(10, 10)\<close> is rejected.
\<close>

lemma large_triangle_binary32:
  "(let t = CalculateBoundsAndDenominator_fp round32 (1 / 1000)
              (blank\<lparr>p1 := \<lparr>X = 0, Y = 0\<rparr>, p2 := \<lparr>X = 100, Y = 0\<rparr>, p3 := \<lparr>X = 0, Y = 100\<rparr>\<rparr>)
    in denominator t = 13743895 / 137438953472 \<and>
       GetBarycentricCoords_fp round32 (1 / 1000) t 10 10 uvw = (False, uvw))"
  by (simp add: CalculateBoundsAndDenominator_fp_def GetBarycentricCoords_fp_def
      Vector2D_minus_fp_def Let_def FAbs_def round32_values round32_0)

subsection \<open>The projecting constructor\<close>

lemma project_Some:
  assumes "deref h (p1_3D src) = Some a1" "deref h (p2_3D src) = Some a2"
    "deref h (p3_3D src) = Some a3"
  shows "RasterTriangle2D_project k eps h init cam look src mat =
     Some (CalculateBoundsAndDenominator eps
       ((if hasUV_3D src
         then init\<lparr>p1UV := uv1 src, p2UV := uv2 src, p3UV := uv3 src\<rparr> else init)
        \<lparr>material := mat, t3p1 := p1_3D src, t3p2 := p2_3D src, t3p3 := p3_3D src,
          normal := Ptr (normal_3D src), hasUV := hasUV_3D src,
          p1 := \<lparr>X = X3 (screenPoint k cam look a1), Y = Y3 (screenPoint k cam look a1)\<rparr>,
          p2 := \<lparr>X = X3 (screenPoint k cam look a2), Y = Y3 (screenPoint k cam look a2)\<rparr>,
          p3 := \<lparr>X = X3 (screenPoint k cam look a3), Y = Y3 (screenPoint k cam look a3)\<rparr>,
          averageDepth := (Z3 (screenPoint k cam look a1) + Z3 (screenPoint k cam look a2) +
                           Z3 (screenPoint k cam look a3)) / 3\<rparr>))"
  using assms
  by (simp add: RasterTriangle2D_project_def Let_def screenPoint_def CalculateBoundsAndDenominator_exact)

lemma project_None:
  "deref h (p1_3D src) = None \<or> deref h (p2_3D src) = None \<or> deref h (p3_3D src) = None \<Longrightarrow>
   RasterTriangle2D_project k eps h init cam look src mat = None"
  by (auto simp add: RasterTriangle2D_project_def Let_def split: option.splits)

lemma project_result:
  assumes "RasterTriangle2D_project k eps h init cam look src mat = Some t"
  shows "\<exists>t0. t = CalculateBoundsAndDenominator eps t0"
  using assms
  by (auto simp add: RasterTriangle2D_project_def Let_def split: option.splits)

lemma example_deref:
  "deref example_store (p1_3D example_source) = Some \<lparr>X3 = 0, Y3 = 0, Z3 = 5\<rparr>"
  "deref example_store (p2_3D example_source) = Some \<lparr>X3 = 1, Y3 = 0, Z3 = 5\<rparr>"
  "deref example_store (p3_3D example_source) = Some \<lparr>X3 = 0, Y3 = 1, Z3 = 5\<rparr>"
  by (simp_all add: example_store_def example_source_def)

lemma identity_screenPoint:
  "screenPoint quat_kernel identity_camera (1, 0, 0, 0) v = v"
  by (simp add: screenPoint_def quat_kernel_def identity_camera_def quat_RotateVector_def
      Vector3D_minus_def Vector3D_divide_def)

lemma zoom_screenPoint:
  "screenPoint quat_kernel zoom_camera (1, 0, 0, 0) v =
     \<lparr>X3 = 100 * X3 v, Y3 = 100 * Y3 v, Z3 = 100 * Z3 v\<rparr>"
  by (simp add: screenPoint_def quat_kernel_def zoom_camera_def identity_camera_def
      quat_RotateVector_def Vector3D_minus_def Vector3D_divide_def)

text \<open>
  The triangle of the spec's projection example, seen by the camera of scale \<open>1/100\<close>
  and with \<open>eps = 1/1000\<close>, is not flagged degenerate, and the point \<open>(10, 10)\<close> inside it
  is rejected.
\<close>

lemma projected_large_triangle:
  "\<exists>t. RasterTriangle2D_project quat_kernel (1 / 1000) example_store blank zoom_camera
          (1, 0, 0, 0) example_source nullptr = Some t \<and>
        p1 t = \<lparr>X = 0, Y = 0\<rparr> \<and> p2 t = \<lparr>X = 100, Y = 0\<rparr> \<and> p3 t = \<lparr>X = 0, Y = 100\<rparr> \<and>
        denominator t = 1 / 10000 \<and>
        GetBarycentricCoords (1 / 1000) t 10 10 uvw = (False, uvw)"
  by (simp add: project_Some [OF example_deref] zoom_screenPoint Calculate_vertices
      Calculate_denominator raw_denominator_def GetBarycentricCoords_early)

subsection \<open>Packing\<close>

lemma Pack_color:
  "color (Pack c) =
     push_bit 11 (ucast (drop_bit 3 (r c))) OR push_bit 5 (ucast (drop_bit 2 (g c))) OR
     ucast (drop_bit 3 (b c))"
  apply (simp add: Pack_def)
  apply (rule bit_word_eqI)
  apply (simp only: bit_simps o_apply)
  apply (auto simp add: possible_bit_word dest: bit_imp_le_length)
  done

lemma Pack_channels: "r (Pack c) = r c" "g (Pack c) = g c" "b (Pack c) = b c"
  by (simp_all add: Pack_def)

lemma Pack_unat:
  "unat (color (Pack c)) =
     push_bit 11 (drop_bit 3 (unat (r c))) OR push_bit 5 (drop_bit 2 (unat (g c))) OR
     drop_bit 3 (unat (b c))"
  apply (simp only: Pack_color)
  apply (rule bit_eqI)
  apply (simp only: bit_simps o_apply)
  apply (auto simp add: possible_bit_word dest: bit_imp_le_length)
  done

lemma packed_sum:
  fixes x y z :: nat
  assumes "y < 64" "z < 32"
  shows "push_bit 11 x OR push_bit 5 y OR z = x * 2048 + y * 32 + z"
proof -
  have y: "take_bit 6 y = y" and z: "take_bit 5 z = z"
    using assms by (simp_all add: take_bit_nat_eq_self_iff)
  have "push_bit 5 (take_bit 6 y) AND take_bit 5 z = 0"
    by (rule bit_eqI) (auto simp add: bit_simps)
  then have low: "push_bit 5 y OR z = push_bit 5 y + z"
    by (simp add: y z disjunctive_add_eq_or)
  have "push_bit 11 x AND (push_bit 5 (take_bit 6 y) OR take_bit 5 z) = 0"
    by (rule bit_eqI) (auto simp add: bit_simps)
  then have high: "push_bit 11 x OR (push_bit 5 y OR z) = push_bit 11 x + (push_bit 5 y OR z)"
    by (simp add: y z disjunctive_add_eq_or)
  have "push_bit 11 x OR push_bit 5 y OR z = push_bit 11 x + (push_bit 5 y OR z)"
    by (rule high)
  also have "\<dots> = push_bit 11 x + (push_bit 5 y + z)"
    by (simp only: low)
  also have "\<dots> = x * 2048 + y * 32 + z"
    by (simp add: push_bit_eq_mult)
  finally show ?thesis .
qed

lemma Pack_arith:
  "unat (color (Pack c)) = (unat (r c) div 8) * 2048 + (unat (g c) div 4) * 32 + unat (b c) div 8"
proof -
  have "unat (g c) < 256" "unat (b c) < 256"
    using unsigned_less [of "g c"] unsigned_less [of "b c"] by simp_all
  then have "drop_bit 2 (unat (g c)) < 64" "drop_bit 3 (unat (b c)) < 32"
    by (simp_all add: drop_bit_eq_div)
  then show ?thesis
    by (simp add: Pack_unat packed_sum) (simp add: drop_bit_eq_div)
qed

section \<open>The claims\<close>

text \<open>
  The triangle of the findings below has the vertices \<open>(0,0)\<close>, \<open>(100,0)\<close>, \<open>(0,100)\<close>,
  and \<open>eps\<close> is \<open>1/1000\<close>. Its raw denominator is \<open>10000\<close>, well above \<open>eps\<close>, so the
  recalculation does not flag it: it stores the reciprocal \<open>1/10000\<close>. That value is
  below \<open>eps\<close>, and the guard of \<^verbatim>\<open>GetBarycentricCoords\<close> treats the triangle as
  degenerate. Lemma \<open>guard_iff\<close> has the general condition, lemma
  \<open>guard_misfires_for_every_eps\<close> a triangle for each positive \<open>eps\<close>.
\<close>

text \<open>
  C1. For every triangle not flagged degenerate at construction and every query point,
  \<^verbatim>\<open>GetBarycentricCoords\<close> is to return the coordinates of the spec's formula and
  \<open>inside = (u \<ge> 0 \<and> v \<ge> 0 \<and> w \<ge> 0)\<close>. The code does not: on the triangle above, which
  is not flagged, the formula gives \<open>(u, v, w) = (4/5, 1/10, 1/10)\<close> and \<open>inside\<close> at the
  point \<open>(10, 10)\<close>, and the function returns false with the three references untouched.
  Where the guard is passed the function is the formula: lemma
  \<open>GetBarycentricCoords_computed\<close>.
\<close>

theorem large_triangle_interior_point_rejected:
  "(let t = triangle_at (1 / 1000) \<lparr>X = 0, Y = 0\<rparr> \<lparr>X = 100, Y = 0\<rparr> \<lparr>X = 0, Y = 100\<rparr>
    in denominator t = 1 / 10000 \<and>
       spec_Barycentric t 10 10 = (True, 4 / 5, 1 / 10, 1 / 10) \<and>
       GetBarycentricCoords (1 / 1000) t 10 10 (0, 0, 0) = (False, 0, 0, 0))"
  by (simp add: triangle_at_def CalculateBoundsAndDenominator_exact RasterTriangle2D_default_def
      blank_def Let_def Vector2D_minus_def FAbs_def spec_Barycentric_def GetBarycentricCoords_exact)

text \<open>
  C2. The early return of \<^verbatim>\<open>GetBarycentricCoords\<close> is to be taken exactly for the
  triangles flagged degenerate at construction (stored value 0), and never for a
  triangle whose raw denominator was above \<open>eps\<close> in absolute value. The code takes it
  on the triangle above for every query point, although the raw denominator is above
  \<open>eps\<close> and the stored value is not 0.
\<close>

theorem early_return_on_unflagged_triangle:
  "(let t = triangle_at (1 / 1000) \<lparr>X = 0, Y = 0\<rparr> \<lparr>X = 100, Y = 0\<rparr> \<lparr>X = 0, Y = 100\<rparr>
    in 1 / 1000 < FAbs (raw_denominator t) \<and> denominator t \<noteq> 0 \<and>
       (\<forall>x y uvw. GetBarycentricCoords (1 / 1000) t x y uvw = (False, uvw)))"
  by (simp add: triangle_at_def CalculateBoundsAndDenominator_exact RasterTriangle2D_default_def
      blank_def Let_def Vector2D_minus_def FAbs_def raw_denominator_def GetBarycentricCoords_exact)




text \<open>
  C4. When the three vertex pointers of the source triangle are valid, the projecting
  constructor returns a triangle whose vertices \<open>p1\<close>, \<open>p2\<close>, \<open>p3\<close> are the \<open>X\<close>, \<open>Y\<close> of
  the spec's screen points of the three source vertices, in source order, where
  \<open>screenPoint = inverseCameraRotation.RotateVector(vertex - position) / scale\<close> and
  \<open>inverseCameraRotation = Conjugate(rotation * lookRotation)\<close>; and whose
  \<open>averageDepth\<close> is the mean of the three \<open>Z\<close>. This holds for every implementation of
  the quaternion operations and of the division.
\<close>

theorem project_screen_points:
  assumes "deref h (p1_3D src) = Some a1" "deref h (p2_3D src) = Some a2"
    "deref h (p3_3D src) = Some a3"
  shows "\<exists>t. RasterTriangle2D_project k eps h init cam look src mat = Some t \<and>
     p1 t = \<lparr>X = X3 (screenPoint k cam look a1), Y = Y3 (screenPoint k cam look a1)\<rparr> \<and>
     p2 t = \<lparr>X = X3 (screenPoint k cam look a2), Y = Y3 (screenPoint k cam look a2)\<rparr> \<and>
     p3 t = \<lparr>X = X3 (screenPoint k cam look a3), Y = Y3 (screenPoint k cam look a3)\<rparr> \<and>
     averageDepth t = (Z3 (screenPoint k cam look a1) + Z3 (screenPoint k cam look a2) +
                       Z3 (screenPoint k cam look a3)) / 3"
  by (simp add: project_Some [OF assms] Calculate_vertices Calculate_frame)

text \<open>
  The spec's projection example: camera at the origin, identity rotations, scale 1,
  source vertices \<open>(0,0,5)\<close>, \<open>(1,0,5)\<close>, \<open>(0,1,5)\<close>.
\<close>

theorem project_screen_points_witness:
  "deref example_store (p1_3D example_source) = Some \<lparr>X3 = 0, Y3 = 0, Z3 = 5\<rparr> \<and>
   deref example_store (p2_3D example_source) = Some \<lparr>X3 = 1, Y3 = 0, Z3 = 5\<rparr> \<and>
   deref example_store (p3_3D example_source) = Some \<lparr>X3 = 0, Y3 = 1, Z3 = 5\<rparr> \<and>
   (\<exists>t. RasterTriangle2D_project quat_kernel (1 / 1000) example_store blank identity_camera
          (1, 0, 0, 0) example_source nullptr = Some t \<and>
        p1 t = \<lparr>X = 0, Y = 0\<rparr> \<and> p2 t = \<lparr>X = 1, Y = 0\<rparr> \<and> p3 t = \<lparr>X = 0, Y = 1\<rparr> \<and>
        averageDepth t = 5)"
proof -
  from project_screen_points [OF example_deref, where k = quat_kernel and eps = "1 / 1000"
      and init = blank and cam = identity_camera and look = "(1, 0, 0, 0)" and mat = nullptr]
  have "\<exists>t. RasterTriangle2D_project quat_kernel (1 / 1000) example_store blank identity_camera
          (1, 0, 0, 0) example_source nullptr = Some t \<and>
        p1 t = \<lparr>X = 0, Y = 0\<rparr> \<and> p2 t = \<lparr>X = 1, Y = 0\<rparr> \<and> p3 t = \<lparr>X = 0, Y = 1\<rparr> \<and>
        averageDepth t = 5"
    by (simp add: identity_screenPoint)
  with example_deref show ?thesis by simp
qed

text \<open>
  C5, as amended. After every recalculation, and so after the projecting constructor,
  \<open>bounds.min\<close> and \<open>bounds.max\<close> are the componentwise minimum and maximum of \<open>p1\<close>,
  \<open>p2\<close>, \<open>p3\<close>, and two triangles with the same set of vertices, in whatever order, get
  the same bounds. The default constructor stores the fixed rectangle from \<open>(0,0)\<close> to
  \<open>(1,1)\<close> whatever the vertices are.
\<close>

theorem recalculated_bounds_tight:
  "bounds_tight (CalculateBoundsAndDenominator eps t) \<and>
   (RasterTriangle2D_project k eps h init cam look src mat = Some t' \<longrightarrow> bounds_tight t') \<and>
   ({a1, a2, a3} = {c1, c2, c3} \<longrightarrow>
      bounds (CalculateBoundsAndDenominator eps (t\<lparr>p1 := a1, p2 := a2, p3 := a3\<rparr>)) =
      bounds (CalculateBoundsAndDenominator eps (t\<lparr>p1 := c1, p2 := c2, p3 := c3\<rparr>))) \<and>
   bounds (RasterTriangle2D_default init0) = \<lparr>minV = \<lparr>X = 0, Y = 0\<rparr>, maxV = \<lparr>X = 1, Y = 1\<rparr>\<rparr>"
proof (intro conjI impI)
  show "bounds_tight (CalculateBoundsAndDenominator eps t)"
    by (rule Calculate_tight)
next
  assume "RasterTriangle2D_project k eps h init cam look src mat = Some t'"
  from project_result [OF this] show "bounds_tight t'"
    by (auto simp add: Calculate_tight)
next
  assume "{a1, a2, a3} = {c1, c2, c3}"
  then show "bounds (CalculateBoundsAndDenominator eps (t\<lparr>p1 := a1, p2 := a2, p3 := a3\<rparr>)) =
      bounds (CalculateBoundsAndDenominator eps (t\<lparr>p1 := c1, p2 := c2, p3 := c3\<rparr>))"
    by (simp only: Calculate_bounds_image) simp
next
  show "bounds (RasterTriangle2D_default init0) = \<lparr>minV = \<lparr>X = 0, Y = 0\<rparr>, maxV = \<lparr>X = 1, Y = 1\<rparr>\<rparr>"
    by (simp add: RasterTriangle2D_default_def)
qed

theorem recalculated_bounds_tight_witness:
  "bounds (CalculateBoundsAndDenominator (1 / 1000)
      (blank\<lparr>p1 := \<lparr>X = 3, Y = 1\<rparr>, p2 := \<lparr>X = 0, Y = 2\<rparr>, p3 := \<lparr>X = 1, Y = 0\<rparr>\<rparr>)) =
     \<lparr>minV = \<lparr>X = 0, Y = 0\<rparr>, maxV = \<lparr>X = 3, Y = 2\<rparr>\<rparr> \<and>
   bounds_tight (CalculateBoundsAndDenominator (1 / 1000)
      (blank\<lparr>p1 := \<lparr>X = 3, Y = 1\<rparr>, p2 := \<lparr>X = 0, Y = 2\<rparr>, p3 := \<lparr>X = 1, Y = 0\<rparr>\<rparr>)) \<and>
   (\<exists>t'. RasterTriangle2D_project quat_kernel (1 / 1000) example_store blank identity_camera
          (1, 0, 0, 0) example_source nullptr = Some t' \<and> bounds_tight t') \<and>
   {\<lparr>X = 3, Y = 1\<rparr>, \<lparr>X = 0, Y = 2\<rparr>, \<lparr>X = 1, Y = 0\<rparr>} =
     {\<lparr>X = 1, Y = 0\<rparr>, \<lparr>X = 3, Y = 1\<rparr>, \<lparr>X = 0, Y = (2::real)\<rparr>} \<and>
   bounds (CalculateBoundsAndDenominator (1 / 1000)
      (blank\<lparr>p1 := \<lparr>X = 3, Y = 1\<rparr>, p2 := \<lparr>X = 0, Y = 2\<rparr>, p3 := \<lparr>X = 1, Y = 0\<rparr>\<rparr>)) =
   bounds (CalculateBoundsAndDenominator (1 / 1000)
      (blank\<lparr>p1 := \<lparr>X = 1, Y = 0\<rparr>, p2 := \<lparr>X = 3, Y = 1\<rparr>, p3 := \<lparr>X = 0, Y = 2\<rparr>\<rparr>))"
proof -
  obtain t' where made: "RasterTriangle2D_project quat_kernel (1 / 1000) example_store blank
      identity_camera (1, 0, 0, 0) example_source nullptr = Some t'"
    by (simp add: project_Some [OF example_deref])
  have same: "{\<lparr>X = 3, Y = 1\<rparr>, \<lparr>X = 0, Y = 2\<rparr>, \<lparr>X = 1, Y = 0\<rparr>} =
     {\<lparr>X = 1, Y = 0\<rparr>, \<lparr>X = 3, Y = 1\<rparr>, \<lparr>X = 0, Y = (2::real)\<rparr>}"
    by auto
  have box: "bounds (CalculateBoundsAndDenominator (1 / 1000)
      (blank\<lparr>p1 := \<lparr>X = 3, Y = 1\<rparr>, p2 := \<lparr>X = 0, Y = 2\<rparr>, p3 := \<lparr>X = 1, Y = 0\<rparr>\<rparr>)) =
     \<lparr>minV = \<lparr>X = 0, Y = 0\<rparr>, maxV = \<lparr>X = 3, Y = 2\<rparr>\<rparr>"
    by (simp add: Calculate_bounds)
  from recalculated_bounds_tight [where eps = "1 / 1000" and t = blank and k = quat_kernel
      and h = example_store and init = blank and cam = identity_camera and look = "(1, 0, 0, 0)"
      and src = example_source and mat = nullptr and t' = t'
      and ?a1.0 = "\<lparr>X = 3, Y = 1\<rparr>" and ?a2.0 = "\<lparr>X = 0, Y = 2\<rparr>" and ?a3.0 = "\<lparr>X = 1, Y = 0\<rparr>"
      and ?c1.0 = "\<lparr>X = 1, Y = 0\<rparr>" and ?c2.0 = "\<lparr>X = 3, Y = 1\<rparr>" and ?c3.0 = "\<lparr>X = 0, Y = 2\<rparr>"]
    made same
  have "bounds_tight t'"
    and "bounds (CalculateBoundsAndDenominator (1 / 1000)
      (blank\<lparr>p1 := \<lparr>X = 3, Y = 1\<rparr>, p2 := \<lparr>X = 0, Y = 2\<rparr>, p3 := \<lparr>X = 1, Y = 0\<rparr>\<rparr>)) =
     bounds (CalculateBoundsAndDenominator (1 / 1000)
      (blank\<lparr>p1 := \<lparr>X = 1, Y = 0\<rparr>, p2 := \<lparr>X = 3, Y = 1\<rparr>, p3 := \<lparr>X = 0, Y = 2\<rparr>\<rparr>))"
    by blast+
  with made same box show ?thesis
    using Calculate_tight by blast
qed

text \<open>
  C5 as stated fails on the default constructor: with every vertex at \<open>(0,0)\<close> the
  stored bounds reach to \<open>(1,1)\<close>, and the componentwise maximum of the vertices is
  \<open>(0,0)\<close>.
\<close>

theorem default_bounds_not_tight: "\<not> bounds_tight (RasterTriangle2D_default blank)"
  by (simp add: bounds_tight_def RasterTriangle2D_default_def blank_def)

text \<open>
  C6. \<^verbatim>\<open>Overlaps(queryRect)\<close> is the axis-aligned intersection test of the stored bounds
  with the query rectangle (on both axes the intervals meet), and it is true for every
  query rectangle that strictly contains the stored bounds.
\<close>

theorem Overlaps_bounds_test:
  "Overlaps t q =
     (X (minV (bounds t)) \<le> X (maxV q) \<and> X (minV q) \<le> X (maxV (bounds t)) \<and>
      Y (minV (bounds t)) \<le> Y (maxV q) \<and> Y (minV q) \<le> Y (maxV (bounds t))) \<and>
   (strictly_contains q (bounds t) \<longrightarrow> Overlaps t q)"
  by (auto simp add: Overlaps_def Rectangle2D_Overlaps_def strictly_contains_def strictly_inside_def)

theorem Overlaps_bounds_test_witness:
  "strictly_contains \<lparr>minV = \<lparr>X = - 1, Y = - 1\<rparr>, maxV = \<lparr>X = 4, Y = 3\<rparr>\<rparr>
     (bounds (triangle_at (1 / 1000) \<lparr>X = 3, Y = 1\<rparr> \<lparr>X = 0, Y = 2\<rparr> \<lparr>X = 1, Y = 0\<rparr>)) \<and>
   Overlaps (triangle_at (1 / 1000) \<lparr>X = 3, Y = 1\<rparr> \<lparr>X = 0, Y = 2\<rparr> \<lparr>X = 1, Y = 0\<rparr>)
     \<lparr>minV = \<lparr>X = - 1, Y = - 1\<rparr>, maxV = \<lparr>X = 4, Y = 3\<rparr>\<rparr>"
proof -
  have inner: "strictly_contains \<lparr>minV = \<lparr>X = - 1, Y = - 1\<rparr>, maxV = \<lparr>X = 4, Y = 3\<rparr>\<rparr>
     (bounds (triangle_at (1 / 1000) \<lparr>X = 3, Y = 1\<rparr> \<lparr>X = 0, Y = 2\<rparr> \<lparr>X = 1, Y = 0\<rparr>))"
    by (simp add: strictly_contains_def strictly_inside_def triangle_at_def Calculate_bounds)
  with Overlaps_bounds_test [of "triangle_at (1 / 1000) \<lparr>X = 3, Y = 1\<rparr> \<lparr>X = 0, Y = 2\<rparr> \<lparr>X = 1, Y = 0\<rparr>"
      "\<lparr>minV = \<lparr>X = - 1, Y = - 1\<rparr>, maxV = \<lparr>X = 4, Y = 3\<rparr>\<rparr>"]
  show ?thesis by blast
qed

text \<open>
  C7. For every triangle not flagged degenerate and every query point, the coordinates
  that \<^verbatim>\<open>GetBarycentricCoords\<close> returns are to sum to 1. On the triangle above, which
  is not flagged, the function returns before it writes any coordinate, for every query
  point: references that held \<open>(0, 0, 0)\<close> still hold it, with sum 0. Where the guard is
  passed the sum is 1: lemma \<open>GetBarycentricCoords_sum\<close>.
\<close>

theorem large_triangle_coordinates_unwritten:
  "(let t = triangle_at (1 / 1000) \<lparr>X = 0, Y = 0\<rparr> \<lparr>X = 100, Y = 0\<rparr> \<lparr>X = 0, Y = 100\<rparr>
    in denominator t \<noteq> 0 \<and>
       (\<forall>x y. case GetBarycentricCoords (1 / 1000) t x y (0, 0, 0) of
                (inside, u, v, w) \<Rightarrow> u + v + w = 0))"
  by (simp add: triangle_at_def CalculateBoundsAndDenominator_exact RasterTriangle2D_default_def
      blank_def Let_def Vector2D_minus_def FAbs_def GetBarycentricCoords_exact)

text \<open>
  C8. For every triangle not flagged degenerate, \<^verbatim>\<open>GetBarycentricCoords\<close> at the
  vertices \<open>p1\<close>, \<open>p2\<close>, \<open>p3\<close> is to yield \<open>(1,0,0)\<close>, \<open>(0,1,0)\<close>, \<open>(0,0,1)\<close>. On the triangle
  above, which is not flagged, the formula gives these values, and the function
  returns false at each vertex and writes nothing. Where the guard is passed the
  vertices have these coordinates: lemma \<open>vertex_exactness\<close>.
\<close>

theorem large_triangle_vertices_rejected:
  "(let t = triangle_at (1 / 1000) \<lparr>X = 0, Y = 0\<rparr> \<lparr>X = 100, Y = 0\<rparr> \<lparr>X = 0, Y = 100\<rparr>
    in denominator t \<noteq> 0 \<and>
       spec_Barycentric t 0 0 = (True, 1, 0, 0) \<and>
       spec_Barycentric t 100 0 = (True, 0, 1, 0) \<and>
       spec_Barycentric t 0 100 = (True, 0, 0, 1) \<and>
       GetBarycentricCoords (1 / 1000) t 0 0 (7, 7, 7) = (False, 7, 7, 7) \<and>
       GetBarycentricCoords (1 / 1000) t 100 0 (7, 7, 7) = (False, 7, 7, 7) \<and>
       GetBarycentricCoords (1 / 1000) t 0 100 (7, 7, 7) = (False, 7, 7, 7))"
  by (simp add: triangle_at_def CalculateBoundsAndDenominator_exact RasterTriangle2D_default_def
      blank_def Let_def Vector2D_minus_def FAbs_def spec_Barycentric_def GetBarycentricCoords_exact)

text \<open>
  C9. A default-constructed triangle stores 0 as its denominator, null in its source,
  material and texture pointers, \<open>hasUV = false\<close> and \<open>averageDepth = 0\<close>, and
  \<^verbatim>\<open>GetBarycentricCoords\<close> returns false on it for every query point, for every positive
  \<open>eps\<close>. The function takes no store: it reads no pointer.
\<close>

theorem default_triangle_rejects:
  assumes "0 < eps"
  shows "(let t = RasterTriangle2D_default init
          in denominator t = 0 \<and>
             t3p1 t = nullptr \<and> t3p2 t = nullptr \<and> t3p3 t = nullptr \<and> normal t = nullptr \<and>
             material t = nullptr \<and> p1UV t = nullptr \<and> p2UV t = nullptr \<and> p3UV t = nullptr \<and>
             hasUV t = False \<and> averageDepth t = 0 \<and>
             GetBarycentricCoords eps t x y uvw = (False, uvw))"
  using assms by (simp add: RasterTriangle2D_default_def GetBarycentricCoords_exact FAbs_def)

theorem default_triangle_rejects_witness:
  "0 < (1 / 1000 :: real) \<and>
   denominator (RasterTriangle2D_default blank) = 0 \<and>
   GetBarycentricCoords (1 / 1000) (RasterTriangle2D_default blank) 0 0 (5, 6, 7) = (False, 5, 6, 7)"
  using default_triangle_rejects [where eps = "1 / 1000" and init = blank and x = 0 and y = 0
      and uvw = "(5, 6, 7)"]
  by (simp add: Let_def)

text \<open>
  C10. After \<^verbatim>\<open>SetColor(rIn, gIn, bIn)\<close>, and so after the constructor from three
  channels, the packed field read as a natural number is
  \<open>((rIn >> 3) << 11) | ((gIn >> 2) << 5) | (bIn >> 3)\<close> computed on natural numbers, which
  is \<open>(rIn div 8) * 2048 + (gIn div 4) * 32 + bIn div 8\<close>; the stored channels are the
  arguments, unquantized.
\<close>

theorem SetColor_packs_RGB565:
  "(let c' = SetColor c rIn gIn bIn
    in unat (color c') =
         (push_bit 11 (drop_bit 3 (unat rIn)) OR push_bit 5 (drop_bit 2 (unat gIn)) OR
          drop_bit 3 (unat bIn)) \<and>
       unat (color c') = (unat rIn div 8) * 2048 + (unat gIn div 4) * 32 + unat bIn div 8 \<and>
       r c' = rIn \<and> g c' = gIn \<and> b c' = bIn) \<and>
   (let c' = RGBColor_of rIn gIn bIn
    in unat (color c') =
         (push_bit 11 (drop_bit 3 (unat rIn)) OR push_bit 5 (drop_bit 2 (unat gIn)) OR
          drop_bit 3 (unat bIn)) \<and>
       r c' = rIn \<and> g c' = gIn \<and> b c' = bIn)"
proof -
  have bits: "unat (color (SetColor s rIn gIn bIn)) =
      (push_bit 11 (drop_bit 3 (unat rIn)) OR push_bit 5 (drop_bit 2 (unat gIn)) OR
       drop_bit 3 (unat bIn))" for s
    by (simp add: SetColor_def Pack_unat)
  have arith: "unat (color (SetColor c rIn gIn bIn)) =
      (unat rIn div 8) * 2048 + (unat gIn div 4) * 32 + unat bIn div 8"
    by (simp add: SetColor_def Pack_arith)
  have channels: "r (SetColor s rIn gIn bIn) = rIn" "g (SetColor s rIn gIn bIn) = gIn"
    "b (SetColor s rIn gIn bIn) = bIn" for s
    by (simp_all add: SetColor_def Pack_channels)
  show ?thesis
    unfolding Let_def RGBColor_of_def
    by (intro conjI bits arith channels)
qed

end
